theory Spec2Isabelle
  imports Complex_Main
begin

section \<open>LKHZ: estimating the kernel tick rate from jiffies and uptime\<close>

text \<open>
  A shallow embedding of \<^verbatim>\<open>src/lkhz.py\<close> (class \<^verbatim>\<open>LKHZ\<close>).

  Conventions of the model.
  \<^item> Python \<^verbatim>\<open>int\<close> is \<open>int\<close>. Python \<^verbatim>\<open>float\<close> is \<open>real\<close>: sums, differences,
    quotients and \<^verbatim>\<open>round(x, 8)\<close> are the exact real operations, so the rounding
    error of IEEE doubles, infinities and NaN are outside the model. Comparisons of
    finite floats are exact in both.
  \<^item> Text is \<open>string\<close>; a character is a byte. The files under \<^verbatim>\<open>/proc\<close> are ASCII, and
    the model follows Python on ASCII text only.
  \<^item> An exception is a value \<open>Inl e\<close> of \<open>exn + 'a\<close>. No caller in the repository
    catches one, so a raise ends the run and the half-updated object is not observed.
  \<^item> The operating system is an input: each function takes the lines of the file it
    reads. A failing \<^verbatim>\<open>open\<close> or \<^verbatim>\<open>subprocess\<close> call is not modelled.
  \<^item> An attribute that \<^verbatim>\<open>__init__\<close> does not assign is an \<open>option\<close> field, \<open>None\<close>
    until the first assignment; reading it earlier is \<open>AttributeError\<close>.
  \<^item> Python names starting with an underscore carry the prefix \<open>u_\<close>.
\<close>

subsection \<open>Exceptions\<close>

datatype exn =
  AttributeError | TypeError | ValueError | IndexError | ZeroDivisionError | UnboundLocalError

definition ebind :: "exn + 'a \<Rightarrow> ('a \<Rightarrow> exn + 'b) \<Rightarrow> exn + 'b" where
  "ebind m f = (case m of Inl e \<Rightarrow> Inl e | Inr v \<Rightarrow> f v)"

text \<open>Reading an attribute that may not have been assigned yet.\<close>

definition attr :: "'a option \<Rightarrow> exn + 'a" where
  "attr a = (case a of None \<Rightarrow> Inl AttributeError | Some v \<Rightarrow> Inr v)"

subsection \<open>Python built-ins on text and lists\<close>

definition newline :: char where
  "newline = CHR 0x0A"

text \<open>The ASCII characters for which \<^verbatim>\<open>str.isspace\<close> holds.\<close>

definition is_space :: "char \<Rightarrow> bool" where
  "is_space c = (c \<in> set [CHR 0x09, CHR 0x0A, CHR 0x0B, CHR 0x0C, CHR 0x0D,
                            CHR 0x1C, CHR 0x1D, CHR 0x1E, CHR 0x1F, CHR 0x20])"

definition is_digit :: "char \<Rightarrow> bool" where
  "is_digit c = (c \<in> set ''0123456789'')"

definition digit_val :: "char \<Rightarrow> int" where
  "digit_val c = int (of_char c) - 48"

definition startswith :: "string \<Rightarrow> string \<Rightarrow> bool" where
  "startswith s p = (take (length p) s = p)"

definition endswith :: "string \<Rightarrow> string \<Rightarrow> bool" where
  "endswith s p = (length p \<le> length s \<and> drop (length s - length p) s = p)"

definition py_strip :: "string \<Rightarrow> string" where
  "py_strip s = rev (dropWhile is_space (rev (dropWhile is_space s)))"

text \<open>
  \<^verbatim>\<open>s.split(sep)\<close> for a non-empty separator: \<open>k\<close> counts the characters of a
  matched separator still to be skipped, \<open>cur\<close> is the field being read.
\<close>

fun split_aux :: "string \<Rightarrow> nat \<Rightarrow> string \<Rightarrow> string \<Rightarrow> string list" where
  "split_aux sep k cur [] = [cur]"
| "split_aux sep k cur (c # cs) =
     (if 0 < k then split_aux sep (k - 1) cur cs
      else if sep \<noteq> [] \<and> startswith (c # cs) sep
        then cur # split_aux sep (length sep - 1) [] cs
      else split_aux sep 0 (cur @ [c]) cs)"

definition py_split :: "string \<Rightarrow> string \<Rightarrow> string list" where
  "py_split s sep = split_aux sep 0 [] s"

text \<open>\<^verbatim>\<open>xs[i]\<close>: a negative index counts from the end, an index out of range raises.\<close>

definition py_index :: "'a list \<Rightarrow> int \<Rightarrow> exn + 'a" where
  "py_index xs i =
     (let j = (if i < 0 then i + int (length xs) else i)
      in if j < 0 \<or> int (length xs) \<le> j then Inl IndexError else Inr (xs ! nat j))"

text \<open>\<^verbatim>\<open>xs[k:]\<close>: a negative start counts from the end; the start is clipped to the list.\<close>

definition py_slice_from :: "int \<Rightarrow> 'a list \<Rightarrow> 'a list" where
  "py_slice_from k xs =
     (let n = int (length xs);
          start = (if k < 0 then max (n + k) 0 else min k n)
      in drop (nat start) xs)"

text \<open>
  \<^verbatim>\<open>int(s)\<close> on ASCII text: surrounding whitespace is dropped, one sign is allowed,
  then decimal digits, where single underscores may stand between digits. Anything
  else is \<open>ValueError\<close>. (The length limit of recent Python versions on the number of
  digits is not modelled.)
\<close>

fun parse_digits :: "bool \<Rightarrow> int \<Rightarrow> string \<Rightarrow> int option" where
  "parse_digits prev acc [] = (if prev then Some acc else None)"
| "parse_digits prev acc (c # cs) =
     (if is_digit c then parse_digits True (10 * acc + digit_val c) cs
      else if c = CHR ''_'' \<and> prev then parse_digits False acc cs
      else None)"

definition py_int :: "string \<Rightarrow> exn + int" where
  "py_int s =
     (case py_strip s of
        [] \<Rightarrow> Inl ValueError
      | c # cs \<Rightarrow>
          (case (if c = CHR ''-'' then map_option uminus (parse_digits False 0 cs)
                 else if c = CHR ''+'' then parse_digits False 0 cs
                 else parse_digits False 0 (c # cs)) of
             None \<Rightarrow> Inl ValueError
           | Some v \<Rightarrow> Inr v))"

text \<open>\<^verbatim>\<open>int(x)\<close> on a float: truncation towards zero.\<close>

definition py_trunc :: "real \<Rightarrow> int" where
  "py_trunc x = (if 0 \<le> x then \<lfloor>x\<rfloor> else \<lceil>x\<rceil>)"

text \<open>
  \<^verbatim>\<open>round(x, 8)\<close>: the closest multiple of \<open>10\<^sup>-\<^sup>8\<close>, a tie going to the even
  multiple.
\<close>

definition round_half_even :: "real \<Rightarrow> int" where
  "round_half_even x =
     (let f = \<lfloor>x\<rfloor>; d = x - of_int f
      in if d < 1 / 2 then f else if 1 / 2 < d then f + 1 else if even f then f else f + 1)"

definition round8 :: "real \<Rightarrow> real" where
  "round8 x = of_int (round_half_even (x * 100000000)) / 100000000"

text \<open>\<^verbatim>\<open>sum(xs)/len(xs)\<close>, \<^verbatim>\<open>min(xs)\<close> and \<^verbatim>\<open>max(xs)\<close>; each raises on the empty list.\<close>

definition py_mean :: "real list \<Rightarrow> exn + real" where
  "py_mean xs = (if xs = [] then Inl ZeroDivisionError else Inr (sum_list xs / real (length xs)))"

fun py_min :: "real list \<Rightarrow> exn + real" where
  "py_min [] = Inl ValueError"
| "py_min (x # xs) = Inr (fold min xs x)"

fun py_max :: "real list \<Rightarrow> exn + real" where
  "py_max [] = Inl ValueError"
| "py_max (x # xs) = Inr (fold max xs x)"

subsection \<open>The object\<close>

record lkhz =
  u_hz :: "real list"
  u_count :: int
  config_hz :: "int option"
  offset :: real
  last_since_boot :: real
  u_oavg :: real
  since_boot :: "real option"
  jiffies :: "int option"
  HZ :: "real option"
  u_avg :: "real option"
  u_min :: "real option"
  u_max :: "real option"
  u_delta :: "real option"

subsection \<open>\<^verbatim>\<open>_read_kernel_config_gz\<close>\<close>

text \<open>
  The argument is the list of lines of the unpacked \<^verbatim>\<open>/proc/config.gz\<close>, each with its
  line end; a line is ASCII, so \<^verbatim>\<open>decode\<close> leaves it as it is. The result \<open>Inr None\<close> is
  the Python value \<^verbatim>\<open>None\<close>.
\<close>

fun read_kernel_config_gz :: "string list \<Rightarrow> exn + int option" where
  "read_kernel_config_gz [] = Inr None"
| "read_kernel_config_gz (line # f) =
     (if startswith line ''CONFIG_HZ=''
      then ebind (py_index (py_split line ''='') 1) (\<lambda>fld.
           ebind (py_int fld) (\<lambda>v. Inr (Some v)))
      else read_kernel_config_gz f)"

subsection \<open>\<^verbatim>\<open>cpu0_offset\<close>\<close>

text \<open>
  The argument is the list of lines of \<^verbatim>\<open>/proc/timer_list\<close>, each with its line end.
  \<open>cpu0_line\<close> is the \<^verbatim>\<open>if\<close>/\<^verbatim>\<open>elif\<close> of the loop body, on the loop's two variables \<open>go\<close>
  and \<open>offset\<close>; \<open>cpu0_scan\<close> is the loop with its \<^verbatim>\<open>if not go: break\<close>, and its result is
  the value of \<open>offset\<close> when the loop ends.
\<close>

definition cpu0_line :: "int \<Rightarrow> int \<Rightarrow> string \<Rightarrow> exn + int \<times> int" where
  "cpu0_line go off line =
     (if go = 2 then
        (if endswith line (''ktime_get_boottime'' @ [newline])
         then Inr (go - 1, off)
         else Inr (go, off))
      else if go = 1 then
        ebind (py_index (py_split (py_strip line) '' '') (- 2)) (\<lambda>fld.
        ebind (py_int fld) (\<lambda>v. Inr (0, v)))
      else Inr (go, off))"

fun cpu0_scan :: "int \<Rightarrow> int \<Rightarrow> string list \<Rightarrow> exn + int" where
  "cpu0_scan go off [] = Inr off"
| "cpu0_scan go off (line # f) =
     ebind (cpu0_line go off line) (\<lambda>(go', off').
       if go' = 0 then Inr off' else cpu0_scan go' off' f)"

definition cpu0_offset :: "string list \<Rightarrow> exn + real" where
  "cpu0_offset f = ebind (cpu0_scan 2 0 f) (\<lambda>off. Inr (real_of_int off / 1000000000))"

subsection \<open>\<^verbatim>\<open>__init__\<close>\<close>

definition init :: "string list \<Rightarrow> string list \<Rightarrow> exn + lkhz" where
  "init config_gz timer_list =
     ebind (read_kernel_config_gz config_gz) (\<lambda>c.
     ebind (cpu0_offset timer_list) (\<lambda>off.
       Inr \<lparr>u_hz = [], u_count = 100, config_hz = c, offset = off, last_since_boot = off,
            u_oavg = 0, since_boot = None, jiffies = None, HZ = None, u_avg = None,
            u_min = None, u_max = None, u_delta = None\<rparr>))"

subsection \<open>\<^verbatim>\<open>user_hz\<close>\<close>

text \<open>
  \<^verbatim>\<open>int(self.HZ+2 // 50*50)\<close>: \<^verbatim>\<open>//\<close> and \<^verbatim>\<open>*\<close> bind tighter than \<^verbatim>\<open>+\<close> and associate
  to the left, so the expression is \<^verbatim>\<open>int(self.HZ + ((2 // 50) * 50))\<close>.
\<close>

definition user_hz :: "lkhz \<Rightarrow> exn + int" where
  "user_hz s = ebind (attr (HZ s)) (\<lambda>h. Inr (py_trunc (h + real_of_int (2 div 50 * 50))))"

subsection \<open>\<^verbatim>\<open>_gv\<close>\<close>

text \<open>
  What one call reads: \<open>uptime\<close> is the value of \<^verbatim>\<open>float(_[0].split(' ')[0])\<close>
  (\<open>None\<close> when \<^verbatim>\<open>float\<close> raises), \<open>out_lines\<close> the lines \<^verbatim>\<open>_\<close> of the command's
  output, \<open>timer_list\<close> the lines of \<^verbatim>\<open>/proc/timer_list\<close> as \<^verbatim>\<open>cpu0_offset\<close> reads
  them if it is called.
\<close>

record snapshot =
  uptime :: "real option"
  out_lines :: "string list"
  timer_list :: "string list"

text \<open>Lines 100 to 108: the elapsed time and the suspend/resume check.\<close>

definition update_since_boot :: "lkhz \<Rightarrow> real \<Rightarrow> string list \<Rightarrow> exn + lkhz" where
  "update_since_boot s r tlines =
     (let sb = r - offset s in
      if \<bar>sb - last_since_boot s\<bar> > 1 then
        (let sb1 = sb + offset s in
         ebind (cpu0_offset tlines) (\<lambda>new.
           let sb2 = sb1 - new in
           Inr (s\<lparr>offset := new, since_boot := Some sb2, last_since_boot := sb2\<rparr>)))
      else Inr (s\<lparr>since_boot := Some sb, last_since_boot := sb\<rparr>))"

text \<open>Lines 116 to 119: the first line starting with \<^verbatim>\<open>jiffies:\<close>, if any.\<close>

fun scan_jiffies :: "string list \<Rightarrow> exn + int option" where
  "scan_jiffies [] = Inr None"
| "scan_jiffies (l # ls) =
     (if startswith l ''jiffies:''
      then ebind (py_index (py_split l '': '') 1) (\<lambda>fld.
           ebind (py_int fld) (\<lambda>v. Inr (Some v)))
      else scan_jiffies ls)"

definition read_jiffies :: "lkhz \<Rightarrow> string list \<Rightarrow> exn + lkhz" where
  "read_jiffies s ls =
     ebind (scan_jiffies ls) (\<lambda>found.
       case found of None \<Rightarrow> Inr s | Some j \<Rightarrow> Inr (s\<lparr>jiffies := Some j\<rparr>))"

text \<open>Lines 126 to 128: the local variable \<^verbatim>\<open>adj_jiffies\<close>.\<close>

definition adj_jiffies :: "int \<Rightarrow> int \<Rightarrow> real \<Rightarrow> int" where
  "adj_jiffies j chz sb =
     (let a = j + 300 * chz in if sb > 300 then a - 2 ^ 32 else a)"

text \<open>Line 130: \<^verbatim>\<open>round(adj_jiffies / self.since_boot, 8)\<close>.\<close>

definition instant_hz :: "int \<Rightarrow> real \<Rightarrow> exn + real" where
  "instant_hz a sb = (if sb = 0 then Inl ZeroDivisionError else Inr (round8 (real_of_int a / sb)))"

text \<open>
  Lines 131 to 140. \<open>avg_window\<close> is the list the average is taken of, \<open>minmax_window\<close>
  the list the minimum and maximum are taken of; the latter is what \<^verbatim>\<open>self._hz\<close> holds
  when the call returns.
\<close>

definition avg_window :: "lkhz \<Rightarrow> real \<Rightarrow> real list" where
  "avg_window s h = py_slice_from (- 1 * u_count s) (u_hz s @ [h])"

definition minmax_window :: "lkhz \<Rightarrow> real list \<Rightarrow> exn + real list" where
  "minmax_window s w =
     (case u_min s of
        None \<Rightarrow> Inr w
      | Some m \<Rightarrow> ebind (attr (u_max s)) (\<lambda>M. Inr (w @ [m, M])))"

definition roll :: "lkhz \<Rightarrow> real \<Rightarrow> exn + lkhz" where
  "roll s h =
     (let w = avg_window s h in
      ebind (py_mean w) (\<lambda>a.
      ebind (minmax_window s w) (\<lambda>w2.
      ebind (py_min w2) (\<lambda>mn.
      ebind (py_max w2) (\<lambda>mx.
        Inr (s\<lparr>HZ := Some h, u_hz := w2, u_avg := Some (round8 a),
                u_min := Some (round8 mn), u_max := Some (round8 mx),
                u_delta := Some (round8 mx - round8 mn)\<rparr>))))))"

definition gv :: "lkhz \<Rightarrow> snapshot \<Rightarrow> exn + lkhz" where
  "gv s inp =
     ebind (case uptime inp of None \<Rightarrow> Inl ValueError | Some r \<Rightarrow> Inr r) (\<lambda>r.
     ebind (update_since_boot s r (timer_list inp)) (\<lambda>s1.
     ebind (read_jiffies s1 (out_lines inp)) (\<lambda>s2.
     ebind (attr (jiffies s2)) (\<lambda>j.
     ebind (case config_hz s2 of None \<Rightarrow> Inl TypeError | Some c \<Rightarrow> Inr c) (\<lambda>c.
     ebind (attr (since_boot s2)) (\<lambda>sb.
     ebind (instant_hz (adj_jiffies j c sb) sb) (\<lambda>h.
       roll s2 h)))))))"

text \<open>Successive calls, as \<^verbatim>\<open>calibrate\<close> and \<^verbatim>\<open>analyze\<close> make them; the first raise ends the run.\<close>

fun run :: "lkhz \<Rightarrow> snapshot list \<Rightarrow> exn + lkhz" where
  "run s [] = Inr s"
| "run s (inp # inps) = ebind (gv s inp) (\<lambda>s'. run s' inps)"

subsection \<open>\<^verbatim>\<open>jiffies_to_datetime\<close>\<close>

text \<open>
  The loop over \<^verbatim>\<open>/proc/stat\<close>: every line starting with \<^verbatim>\<open>btime\<close> assigns the local
  variable, so the last one stands; \<open>None\<close> is the unassigned variable.
\<close>

fun scan_btime :: "int option \<Rightarrow> string list \<Rightarrow> exn + int option" where
  "scan_btime bt [] = Inr bt"
| "scan_btime bt (line # f) =
     (if startswith line ''btime''
      then ebind (py_index (py_split (py_strip line) '' '') 1) (\<lambda>fld.
           ebind (py_int fld) (\<lambda>v. scan_btime (Some v) f))
      else scan_btime bt f)"

text \<open>The local variable \<^verbatim>\<open>adj_jiffies\<close> of \<^verbatim>\<open>jiffies_to_datetime\<close> (lines 77 to 79).\<close>

definition dt_adj_jiffies :: "int \<Rightarrow> int \<Rightarrow> real \<Rightarrow> real \<Rightarrow> int" where
  "dt_adj_jiffies jf uhz sb off =
     (let a = jf + 300 * uhz in if sb + off > 300 then a - 2 ^ 32 else a)"

text \<open>
  The result is the number handed to \<^verbatim>\<open>datetime.datetime.fromtimestamp\<close>, seconds since
  the epoch; the conversion to a local calendar date is not modelled.
\<close>

definition jiffies_to_datetime ::
    "lkhz \<Rightarrow> int \<Rightarrow> string list \<Rightarrow> string list \<Rightarrow> exn + real" where
  "jiffies_to_datetime s jf tlines stat =
     ebind (user_hz s) (\<lambda>uhz.
     ebind (attr (since_boot s)) (\<lambda>sb.
     ebind (cpu0_offset tlines) (\<lambda>off.
     ebind (case config_hz s of
              None \<Rightarrow> Inl TypeError
            | Some c \<Rightarrow> if c = 0 then Inl ZeroDivisionError
                        else Inr (real_of_int (dt_adj_jiffies jf uhz sb off) / real_of_int c))
       (\<lambda>secs.
     ebind (scan_btime None stat) (\<lambda>bt.
     ebind (case bt of None \<Rightarrow> Inl UnboundLocalError | Some b \<Rightarrow> Inr b) (\<lambda>btime.
       Inr (secs + real_of_int btime)))))))"

subsection \<open>Notions used in the statements\<close>

text \<open>Whether some line of the timer listing ends with the boot-time clock's identifier.\<close>

definition has_boottime :: "string list \<Rightarrow> bool" where
  "has_boottime f = list_ex (\<lambda>line. endswith line (''ktime_get_boottime'' @ [newline])) f"

text \<open>Whether some line of the kernel configuration starts with \<^verbatim>\<open>CONFIG_HZ=\<close>.\<close>

definition has_config_hz :: "string list \<Rightarrow> bool" where
  "has_config_hz f = list_ex (\<lambda>line. startswith line ''CONFIG_HZ='') f"

text \<open>The number a string of decimal digits denotes.\<close>

definition dec_val :: "string \<Rightarrow> int" where
  "dec_val ds = foldl (\<lambda>a c. 10 * a + digit_val c) 0 ds"

text \<open>The estimates \<^verbatim>\<open>self.HZ\<close> of the calls of a run, in the order of the calls.\<close>

fun hz_trace :: "lkhz \<Rightarrow> snapshot list \<Rightarrow> real list" where
  "hz_trace s [] = []"
| "hz_trace s (inp # inps) =
     (case gv s inp of
        Inl e \<Rightarrow> []
      | Inr s' \<Rightarrow> (case HZ s' of None \<Rightarrow> [] | Some h \<Rightarrow> h # hz_trace s' inps))"

text \<open>
  The average as the specification words it: the mean, rounded to 8 digits, of the at
  most \<open>n\<close> most recent instantaneous estimates \<open>hs\<close>, given in arrival order.
\<close>

definition spec_average :: "nat \<Rightarrow> real list \<Rightarrow> real" where
  "spec_average n hs =
     (let w = drop (length hs - n) hs in round8 (sum_list w / real (length w)))"

text \<open>
  The minimum and maximum are assigned together; both are values of \<^verbatim>\<open>round(_, 8)\<close>, and
  \<^verbatim>\<open>_delta\<close> is their difference.
\<close>

definition extremes_ok :: "lkhz \<Rightarrow> bool" where
  "extremes_ok s =
     (case (u_min s, u_max s) of
        (None, None) \<Rightarrow> True
      | (Some m, Some M) \<Rightarrow> round8 m = m \<and> round8 M = M \<and> m \<le> M \<and> u_delta s = Some (M - m)
      | _ \<Rightarrow> False)"

subsection \<open>A worked example\<close>

text \<open>
  A kernel configured with 250 ticks per second whose boot-time clock has offset 0, and
  three polls around 1000 seconds of uptime at which the tick counter gives the
  estimates 240, 250 and 260. \<open>ex_s0\<close> is the object after \<^verbatim>\<open>__init__\<close>, \<open>ex_s1\<close> to
  \<open>ex_s3\<close> are the object after each call of \<^verbatim>\<open>_gv\<close>.
\<close>

definition ex_config_gz :: "string list" where
  "ex_config_gz = [''CONFIG_HZ_250=y'' @ [newline], ''CONFIG_HZ=250'' @ [newline]]"

definition ex_timer_list :: "string list" where
  "ex_timer_list = ['' .get_time:   ktime_get_boottime'' @ [newline],
                    ''  .offset:     0 nsecs'' @ [newline]]"

definition ex_timer_list_resumed :: "string list" where
  "ex_timer_list_resumed = ['' .get_time:   ktime_get_boottime'' @ [newline],
                            ''  .offset:     5000000000 nsecs'' @ [newline]]"

definition ex_timer_list_other :: "string list" where
  "ex_timer_list_other = ['' .get_time:   ktime_get_real'' @ [newline],
                          ''  .offset:     5000000000 nsecs'' @ [newline]]"

definition ex_stat :: "string list" where
  "ex_stat = [''ctxt 115315'' @ [newline], ''btime 1700000000'' @ [newline]]"

definition ex_s0 :: lkhz where
  "ex_s0 = \<lparr>u_hz = [], u_count = 100, config_hz = Some 250, offset = 0, last_since_boot = 0,
            u_oavg = 0, since_boot = None, jiffies = None, HZ = None, u_avg = None,
            u_min = None, u_max = None, u_delta = None\<rparr>"

definition ex_snap1 :: snapshot where
  "ex_snap1 = \<lparr>uptime = Some 1000,
               out_lines = [''1000.00 3912.55'', ''jiffies: 4295132296''],
               timer_list = ex_timer_list\<rparr>"

definition ex_snap2 :: snapshot where
  "ex_snap2 = \<lparr>uptime = Some (2001 / 2),
               out_lines = [''1000.50 3914.55'', ''jiffies: 4295142421''],
               timer_list = ex_timer_list\<rparr>"

definition ex_snap3 :: snapshot where
  "ex_snap3 = \<lparr>uptime = Some 1001,
               out_lines = [''1001.00 3916.55'', ''jiffies: 4295152556''],
               timer_list = ex_timer_list\<rparr>"

definition ex_s1 :: lkhz where
  "ex_s1 = \<lparr>u_hz = [240], u_count = 100, config_hz = Some 250, offset = 0,
            last_since_boot = 1000, u_oavg = 0, since_boot = Some 1000,
            jiffies = Some 4295132296, HZ = Some 240, u_avg = Some 240,
            u_min = Some 240, u_max = Some 240, u_delta = Some 0\<rparr>"

definition ex_s2 :: lkhz where
  "ex_s2 = \<lparr>u_hz = [240, 250, 240, 240], u_count = 100, config_hz = Some 250, offset = 0,
            last_since_boot = 2001 / 2, u_oavg = 0, since_boot = Some (2001 / 2),
            jiffies = Some 4295142421, HZ = Some 250, u_avg = Some 245,
            u_min = Some 240, u_max = Some 250, u_delta = Some 10\<rparr>"

definition ex_s3 :: lkhz where
  "ex_s3 = \<lparr>u_hz = [240, 250, 240, 240, 260, 240, 250], u_count = 100, config_hz = Some 250,
            offset = 0, last_since_boot = 1001, u_oavg = 0, since_boot = Some 1001,
            jiffies = Some 4295152556, HZ = Some 260, u_avg = Some 246,
            u_min = Some 240, u_max = Some 260, u_delta = Some 20\<rparr>"

text \<open>
  The object of the conversion scenario: 4100 seconds after boot, with an estimate of
  exactly 250.
\<close>

definition ex_dt :: lkhz where
  "ex_dt = \<lparr>u_hz = [250], u_count = 100, config_hz = Some 250, offset = 0,
            last_since_boot = 4100, u_oavg = 0, since_boot = Some 4100,
            jiffies = Some 4295992296, HZ = Some 250, u_avg = Some 250,
            u_min = Some 250, u_max = Some 250, u_delta = Some 0\<rparr>"

text \<open>A poll at which the tick counter gives the estimate 249.5, and the object after it.\<close>

definition ex_snap_half :: snapshot where
  "ex_snap_half = \<lparr>uptime = Some 1000,
                   out_lines = [''1000.00 3912.55'', ''jiffies: 4295141796''],
                   timer_list = ex_timer_list\<rparr>"

definition ex_s_half :: lkhz where
  "ex_s_half = \<lparr>u_hz = [499 / 2], u_count = 100, config_hz = Some 250, offset = 0,
                last_since_boot = 1000, u_oavg = 0, since_boot = Some 1000,
                jiffies = Some 4295141796, HZ = Some (499 / 2), u_avg = Some (499 / 2),
                u_min = Some (499 / 2), u_max = Some (499 / 2), u_delta = Some 0\<rparr>"

section \<open>Properties\<close>

subsection \<open>Exceptions\<close>

lemma ebind_Inl [simp]: "ebind (Inl e) f = Inl e"
  by (simp add: ebind_def)

lemma ebind_Inr [simp]: "ebind (Inr v) f = f v"
  by (simp add: ebind_def)

lemma ebind_eq_Inr: "ebind m f = Inr y \<longleftrightarrow> (\<exists>v. m = Inr v \<and> f v = Inr y)"
  by (cases m) simp_all

lemma attr_eq_Inr [simp]: "attr a = Inr v \<longleftrightarrow> a = Some v"
  by (cases a) (simp_all add: attr_def)

lemma attr_Some [simp]: "attr (Some v) = Inr v"
  by (simp add: attr_def)

lemma attr_None [simp]: "attr None = Inl AttributeError"
  by (simp add: attr_def)

lemma ebind_weak_cong: "m = m' \<Longrightarrow> ebind m f = ebind m' f"
  by simp

subsection \<open>Rounding\<close>

lemma round_half_even_of_int [simp]: "round_half_even (of_int n) = n"
  by (simp add: round_half_even_def)

lemma round_half_even_lower: "\<lfloor>x\<rfloor> \<le> round_half_even x"
  by (simp add: round_half_even_def Let_def)

lemma round_half_even_upper: "round_half_even x \<le> \<lfloor>x\<rfloor> + 1"
  by (simp add: round_half_even_def Let_def)

lemma round_half_even_mono:
  assumes "x \<le> y"
  shows "round_half_even x \<le> round_half_even y"
proof (cases "\<lfloor>x\<rfloor> = \<lfloor>y\<rfloor>")
  case True
  with assms show ?thesis
    by (auto simp: round_half_even_def Let_def)
next
  case False
  with assms have "\<lfloor>x\<rfloor> < \<lfloor>y\<rfloor>"
    using floor_mono [of x y] by linarith
  then have "round_half_even x \<le> \<lfloor>y\<rfloor>"
    using round_half_even_upper [of x] by linarith
  then show ?thesis
    using round_half_even_lower [of y] by linarith
qed

lemma round8_mono: "x \<le> y \<Longrightarrow> round8 x \<le> round8 y"
  by (simp add: round8_def round_half_even_mono divide_right_mono)

lemma round8_idem [simp]: "round8 (round8 x) = round8 x"
  by (simp add: round8_def)

lemma round8_nonneg: "0 \<le> x \<Longrightarrow> 0 \<le> round8 x"
proof -
  assume "0 \<le> x"
  then have "round_half_even 0 \<le> round_half_even (x * 100000000)"
    by (intro round_half_even_mono) simp
  moreover have "round_half_even 0 = 0"
    using round_half_even_of_int [of 0] by simp
  ultimately show ?thesis
    by (simp add: round8_def)
qed


subsection \<open>The shape of a call that returns\<close>

lemma update_since_boot_frame:
  assumes "update_since_boot s r tlines = Inr s1"
  shows "u_hz s1 = u_hz s \<and> u_count s1 = u_count s \<and> config_hz s1 = config_hz s \<and>
         jiffies s1 = jiffies s \<and> HZ s1 = HZ s \<and> u_avg s1 = u_avg s \<and>
         u_min s1 = u_min s \<and> u_max s1 = u_max s \<and> u_delta s1 = u_delta s \<and>
         since_boot s1 = Some (last_since_boot s1)"
  using assms
  by (auto simp: update_since_boot_def Let_def ebind_eq_Inr split: if_splits)

lemma read_jiffies_frame:
  assumes "read_jiffies s1 ls = Inr s2"
  shows "u_hz s2 = u_hz s1 \<and> u_count s2 = u_count s1 \<and> config_hz s2 = config_hz s1 \<and>
         since_boot s2 = since_boot s1 \<and> HZ s2 = HZ s1 \<and> u_avg s2 = u_avg s1 \<and>
         u_min s2 = u_min s1 \<and> u_max s2 = u_max s1 \<and> u_delta s2 = u_delta s1 \<and>
         offset s2 = offset s1 \<and> last_since_boot s2 = last_since_boot s1"
  using assms
  by (auto simp: read_jiffies_def ebind_eq_Inr split: option.splits)

lemma gv_InrD:
  assumes "gv s inp = Inr s'"
  obtains r s1 s2 j c sb h where
    "uptime inp = Some r"
    "update_since_boot s r (timer_list inp) = Inr s1"
    "read_jiffies s1 (out_lines inp) = Inr s2"
    "jiffies s2 = Some j" "config_hz s2 = Some c" "since_boot s2 = Some sb"
    "instant_hz (adj_jiffies j c sb) sb = Inr h"
    "roll s2 h = Inr s'"
  using assms
  by (auto simp: gv_def ebind_eq_Inr split: option.splits)

lemma roll_InrD:
  assumes "roll s h = Inr s'"
  obtains a w2 mn mx where
    "py_mean (avg_window s h) = Inr a"
    "minmax_window s (avg_window s h) = Inr w2"
    "py_min w2 = Inr mn" "py_max w2 = Inr mx"
    "s' = s\<lparr>HZ := Some h, u_hz := w2, u_avg := Some (round8 a),
             u_min := Some (round8 mn), u_max := Some (round8 mx),
             u_delta := Some (round8 mx - round8 mn)\<rparr>"
  using assms
  by (auto simp: roll_def Let_def ebind_eq_Inr)

lemma instant_hz_eq_Inr:
  "instant_hz a sb = Inr h \<longleftrightarrow> sb \<noteq> 0 \<and> h = round8 (real_of_int a / sb)"
  by (auto simp: instant_hz_def)

subsection \<open>The worked example, evaluated\<close>

lemmas text_defs = startswith_def endswith_def py_strip_def py_split_def py_index_def
  py_int_def is_space_def is_digit_def digit_val_def newline_def

lemmas step_defs = gv_def update_since_boot_def read_jiffies_def adj_jiffies_def
  instant_hz_def roll_def avg_window_def minmax_window_def py_slice_from_def py_mean_def
  round8_def round_half_even_def Let_def

lemma ex_read_config: "read_kernel_config_gz ex_config_gz = Inr (Some 250)"
  by (simp add: ex_config_gz_def text_defs)

lemma ex_cpu0_offset: "cpu0_offset ex_timer_list = Inr 0"
  by (simp add: cpu0_offset_def cpu0_line_def ex_timer_list_def text_defs)

lemma ex_cpu0_offset_resumed: "cpu0_offset ex_timer_list_resumed = Inr 5"
  by (simp add: cpu0_offset_def cpu0_line_def ex_timer_list_resumed_def text_defs)

lemma ex_init: "init ex_config_gz ex_timer_list = Inr ex_s0"
  by (simp add: init_def ex_read_config ex_cpu0_offset ex_s0_def)

lemma ex_jiffies1: "scan_jiffies (out_lines ex_snap1) = Inr (Some 4295132296)"
  by (simp add: ex_snap1_def text_defs)

lemma ex_jiffies2: "scan_jiffies (out_lines ex_snap2) = Inr (Some 4295142421)"
  by (simp add: ex_snap2_def text_defs)

lemma ex_jiffies3: "scan_jiffies (out_lines ex_snap3) = Inr (Some 4295152556)"
  by (simp add: ex_snap3_def text_defs)

lemma ex_snap_simps:
  "uptime ex_snap1 = Some 1000" "timer_list ex_snap1 = ex_timer_list"
  "uptime ex_snap2 = Some (2001 / 2)" "timer_list ex_snap2 = ex_timer_list"
  "uptime ex_snap3 = Some 1001" "timer_list ex_snap3 = ex_timer_list"
  by (simp_all add: ex_snap1_def ex_snap2_def ex_snap3_def)

lemma ex_step1: "gv ex_s0 ex_snap1 = Inr ex_s1"
  by (simp add: ex_s0_def ex_s1_def step_defs ex_snap_simps ex_cpu0_offset ex_jiffies1
      cong: ebind_weak_cong)

lemma ex_step2: "gv ex_s1 ex_snap2 = Inr ex_s2"
  by (simp add: ex_s1_def ex_s2_def step_defs ex_snap_simps ex_jiffies2 cong: ebind_weak_cong)

lemma ex_step3: "gv ex_s2 ex_snap3 = Inr ex_s3"
  by (simp add: ex_s2_def ex_s3_def step_defs ex_snap_simps ex_jiffies3 cong: ebind_weak_cong)

lemma ex_run3: "run ex_s0 [ex_snap1, ex_snap2, ex_snap3] = Inr ex_s3"
  by (simp add: ex_step1 ex_step2 ex_step3)

subsection \<open>The tick-bias correction\<close>

text \<open>
  A call that returns has stored the raw ticks, the elapsed time, which is not zero, and
  as estimate the adjusted ticks over the elapsed time, rounded.
\<close>

lemma gv_estimate:
  assumes "gv s inp = Inr s'"
  shows "\<exists>j c sb. jiffies s' = Some j \<and> config_hz s' = Some c \<and> since_boot s' = Some sb \<and>
           sb \<noteq> 0 \<and> HZ s' = Some (round8 (real_of_int (adj_jiffies j c sb) / sb))"
proof -
  from assms obtain s2 j c sb h where
    s2: "jiffies s2 = Some j" "config_hz s2 = Some c" "since_boot s2 = Some sb"
    and h: "instant_hz (adj_jiffies j c sb) sb = Inr h"
    and r: "roll s2 h = Inr s'"
    by (rule gv_InrD)
  from r have "jiffies s' = jiffies s2" "config_hz s' = config_hz s2"
       "since_boot s' = since_boot s2" "HZ s' = Some h"
    by (auto elim!: roll_InrD)
  with s2 h show ?thesis
    by (auto simp: instant_hz_eq_Inr)
qed

text \<open>
  Claim C1. For every raw tick value \<open>t\<close>, configured rate \<open>c\<close> and elapsed time
  \<open>e > 0\<close>, the adjusted tick count of \<^verbatim>\<open>_gv\<close> is \<open>t + 300 * c\<close> when \<open>e \<le> 300\<close> and
  \<open>t + 300 * c - 2\<^sup>3\<^sup>2\<close> when \<open>e > 300\<close>: the subtraction happens once, however large
  \<open>e\<close> is. It is this count, of the ticks and the elapsed time the call has stored, that
  a call of \<^verbatim>\<open>_gv\<close> divides to get its estimate.
\<close>

theorem adj_jiffies_correction:
  "(0 < e \<and> e \<le> 300 \<longrightarrow> adj_jiffies t c e = t + 300 * c) \<and>
   (300 < e \<longrightarrow> adj_jiffies t c e = t + 300 * c - 4294967296) \<and>
   (gv s inp = Inr s' \<longrightarrow>
      (\<exists>j k sb. jiffies s' = Some j \<and> config_hz s' = Some k \<and> since_boot s' = Some sb \<and>
         HZ s' = Some (round8 (real_of_int (adj_jiffies j k sb) / sb))))"
  using gv_estimate [of s inp s'] by (auto simp: adj_jiffies_def)

theorem adj_jiffies_correction_witness:
  "adj_jiffies 1000000 250 120 = 1075000 \<and>
   adj_jiffies 1000000 250 1000000000 = - 4293892296 \<and>
   adj_jiffies 4295132296 250 1000 = 240000 \<and>
   jiffies ex_s1 = Some 4295132296 \<and> since_boot ex_s1 = Some 1000 \<and> HZ ex_s1 = Some 240"
  using adj_jiffies_correction [of 120 1000000 250 ex_s0 ex_snap1 ex_s1]
    adj_jiffies_correction [of 1000000000 1000000 250 ex_s0 ex_snap1 ex_s1]
    adj_jiffies_correction [of 1000 4295132296 250 ex_s0 ex_snap1 ex_s1] ex_step1
  by (simp add: ex_s1_def)


subsection \<open>The instantaneous estimate\<close>



subsection \<open>The boot offset\<close>



subsection \<open>Ticks to timestamps\<close>

lemma user_hz_eq: "HZ s = Some h \<Longrightarrow> user_hz s = Inr (py_trunc h)"
  by (simp add: user_hz_def)

text \<open>
  Claim C7. \<^verbatim>\<open>jiffies_to_datetime\<close> adds 300 times the \<^verbatim>\<open>user_hz\<close> estimate to the raw
  ticks, subtracts \<open>2\<^sup>3\<^sup>2\<close> exactly when the elapsed time plus the freshly read boot offset
  exceeds 300, divides by the configured rate and adds the boot epoch. For 1,000,000 raw
  ticks, an estimate of 250, 4100 seconds and offset 0 the adjusted ticks are
  -4,293,892,296.
\<close>

theorem jiffies_to_datetime_value:
  assumes "user_hz s = Inr u" and "since_boot s = Some sb"
    and "cpu0_offset tlines = Inr off"
    and "config_hz s = Some c" and "c \<noteq> 0"
    and "scan_btime None stat = Inr (Some bt)"
  shows "jiffies_to_datetime s jf tlines stat =
           Inr (real_of_int (dt_adj_jiffies jf u sb off) / real_of_int c + real_of_int bt) \<and>
         dt_adj_jiffies jf u sb off =
           (if sb + off > 300 then jf + 300 * u - 2 ^ 32 else jf + 300 * u) \<and>
         dt_adj_jiffies 1000000 250 4100 0 = 1000000 + 75000 - 4294967296 \<and>
         dt_adj_jiffies 1000000 250 4100 0 = - 4293892296"
  using assms by (simp add: jiffies_to_datetime_def dt_adj_jiffies_def)

lemma ex_btime: "scan_btime None ex_stat = Inr (Some 1700000000)"
  by (simp add: ex_stat_def text_defs cong: ebind_weak_cong)

theorem jiffies_to_datetime_value_witness:
  "user_hz ex_dt = Inr 250 \<and>
   jiffies_to_datetime ex_dt 1000000 ex_timer_list ex_stat =
     Inr (- 4293892296 / 250 + 1700000000) \<and>
   dt_adj_jiffies 1000000 250 4100 0 = - 4293892296"
proof -
  have u: "user_hz ex_dt = Inr 250"
    by (simp add: user_hz_def ex_dt_def py_trunc_def)
  have sb: "since_boot ex_dt = Some 4100" and c: "config_hz ex_dt = Some 250"
    by (simp_all add: ex_dt_def)
  have nz: "(250::int) \<noteq> 0"
    by simp
  show ?thesis
    using jiffies_to_datetime_value [OF u sb ex_cpu0_offset c nz ex_btime, of 1000000] u
    by simp
qed

subsection \<open>Reading the reference offset\<close>

lemma cpu0_scan_not_found:
  "\<not> has_boottime f \<Longrightarrow> cpu0_scan 2 off f = Inr off"
  by (induction f) (simp_all add: has_boottime_def cpu0_line_def)

text \<open>
  When the identifier is found, the value comes from the line after the first line that
  ends with it: the next-to-last field of that line, separated by single blanks.
\<close>

lemma cpu0_scan_found:
  assumes "\<not> has_boottime pre" and "endswith line (''ktime_get_boottime'' @ [newline])"
  shows "cpu0_scan 2 off (pre @ line # nxt # post) =
           ebind (py_index (py_split (py_strip nxt) '' '') (- 2)) py_int"
  using assms(1)
proof (induction pre)
  case Nil
  have "cpu0_scan 1 off (nxt # post) =
          ebind (py_index (py_split (py_strip nxt) '' '') (- 2)) py_int"
    by (simp add: cpu0_line_def ebind_def split: sum.splits)
  with assms(2) show ?case
    by (simp add: cpu0_line_def)
next
  case (Cons l pre)
  then show ?case
    by (simp add: has_boottime_def cpu0_line_def)
qed

text \<open>
  Claim C5 as stated fails: for a listing none of whose lines ends with the identifier,
  \<^verbatim>\<open>cpu0_offset\<close> returns a number, 0.0, and raises nothing.
\<close>

theorem cpu0_offset_fallback_counterexample:
  "\<not> has_boottime ex_timer_list_other \<and> cpu0_offset ex_timer_list_other = Inr 0"
  by (simp add: has_boottime_def cpu0_offset_def cpu0_line_def ex_timer_list_other_def
      endswith_def newline_def)

text \<open>
  Claim C5, amended. When no line of the timer listing ends with the identifier
  \<^verbatim>\<open>ktime_get_boottime\<close>, \<^verbatim>\<open>cpu0_offset\<close> raises nothing: it returns the number 0.0, its
  initial offset 0 divided by \<open>10\<^sup>9\<close>.
\<close>

theorem cpu0_offset_not_found:
  "\<not> has_boottime f \<Longrightarrow> cpu0_offset f = Inr 0"
  by (simp add: cpu0_offset_def cpu0_scan_not_found)

theorem cpu0_offset_not_found_witness:
  "\<not> has_boottime [] \<and> cpu0_offset [] = Inr 0 \<and> cpu0_offset ex_timer_list_other = Inr 0"
proof -
  have a: "\<not> has_boottime []"
    by (simp add: has_boottime_def)
  have b: "\<not> has_boottime ex_timer_list_other"
    by (simp add: has_boottime_def ex_timer_list_other_def endswith_def newline_def)
  show ?thesis
    using cpu0_offset_not_found [OF a] cpu0_offset_not_found [OF b] a by simp
qed

subsection \<open>Reading the configured rate\<close>

lemma split_aux_no_sep:
  "c \<notin> set s \<Longrightarrow> split_aux [c] 0 cur s = [cur @ s]"
  by (induction s arbitrary: cur) (auto simp: startswith_def)

lemma is_digit_not_space: "is_digit c \<Longrightarrow> \<not> is_space c"
  by (auto simp: is_digit_def is_space_def)

lemma dropWhile_space_digits:
  "ds \<noteq> [] \<Longrightarrow> is_digit (hd ds) \<Longrightarrow> dropWhile is_space ds = ds"
  by (cases ds) (simp_all add: is_digit_not_space)

lemma py_strip_digits:
  assumes "ds \<noteq> []" and "list_all is_digit ds"
  shows "py_strip (ds @ [newline]) = ds"
proof -
  from assms have h: "is_digit (hd ds)" and l: "is_digit (last ds)"
    by (auto simp: list_all_iff hd_in_set last_in_set)
  have "dropWhile is_space (ds @ [newline]) = ds @ [newline]"
    using assms(1) h by (cases ds) (simp_all add: is_digit_not_space)
  moreover have "dropWhile is_space (rev (ds @ [newline])) = rev ds"
  proof -
    have "is_space newline"
      by (simp add: is_space_def newline_def)
    moreover have "dropWhile is_space (rev ds) = rev ds"
      using assms(1) l by (intro dropWhile_space_digits) (simp_all add: hd_rev)
    ultimately show ?thesis
      by simp
  qed
  ultimately show ?thesis
    by (simp add: py_strip_def)
qed

lemma parse_digits_all:
  "list_all is_digit ds \<Longrightarrow> ds \<noteq> [] \<or> prev \<Longrightarrow>
     parse_digits prev acc ds = Some (foldl (\<lambda>a c. 10 * a + digit_val c) acc ds)"
  by (induction ds arbitrary: prev acc) simp_all

lemma py_int_digits:
  assumes "ds \<noteq> []" and "list_all is_digit ds"
  shows "py_int (ds @ [newline]) = Inr (dec_val ds)"
proof -
  from assms obtain c cs where ds: "ds = c # cs"
    by (cases ds) auto
  with assms(2) have "is_digit c"
    by simp
  then have "c \<noteq> CHR ''-''" "c \<noteq> CHR ''+''"
    by (auto simp: is_digit_def)
  moreover have "parse_digits False 0 ds = Some (dec_val ds)"
    using assms by (simp add: parse_digits_all dec_val_def)
  moreover have "py_strip (c # cs @ [newline]) = c # cs"
    using py_strip_digits [OF assms] by (simp add: ds)
  ultimately show ?thesis
    by (simp add: py_int_def ds)
qed


lemma read_kernel_config_gz_skip:
  "\<not> has_config_hz pre \<Longrightarrow> read_kernel_config_gz (pre @ rest) = read_kernel_config_gz rest"
  by (induction pre) (simp_all add: has_config_hz_def)


lemma config_line_field:
  assumes "list_all is_digit ds"
  shows "py_index (py_split (''CONFIG_HZ='' @ ds @ [newline]) ''='') 1 = Inr (ds @ [newline])"
proof -
  have "\<not> is_digit CHR ''=''"
    by (simp add: is_digit_def)
  with assms have "CHR ''='' \<notin> set ds"
    by (auto simp: list_all_iff)
  then have "CHR ''='' \<notin> set (ds @ [newline])"
    by (simp add: newline_def)
  then have "split_aux [CHR ''=''] 0 [] (ds @ [newline]) = [[] @ (ds @ [newline])]"
    by (rule split_aux_no_sep)
  then show ?thesis
    by (simp add: py_split_def startswith_def py_index_def)
qed

text \<open>
  Claim C6 as stated fails: for a configuration none of whose lines starts with
  \<^verbatim>\<open>CONFIG_HZ=\<close>, \<^verbatim>\<open>_read_kernel_config_gz\<close> returns \<^verbatim>\<open>None\<close> and raises nothing.
\<close>

theorem read_kernel_config_gz_absent_counterexample:
  "\<not> has_config_hz [''CONFIG_HZ_250=y'' @ [newline]] \<and>
   read_kernel_config_gz [''CONFIG_HZ_250=y'' @ [newline]] = Inr None"
  by (simp add: has_config_hz_def startswith_def)

text \<open>
  Claim C6, amended. \<^verbatim>\<open>_read_kernel_config_gz\<close> looks for the first line starting with
  \<^verbatim>\<open>CONFIG_HZ=\<close> and, when that line is \<^verbatim>\<open>CONFIG_HZ=\<close> followed by decimal digits and the
  line end, returns the integer they denote; when no line starts with \<^verbatim>\<open>CONFIG_HZ=\<close> it
  raises nothing and returns \<^verbatim>\<open>None\<close>.
\<close>

theorem read_kernel_config_gz_result:
  "(\<not> has_config_hz f \<longrightarrow> read_kernel_config_gz f = Inr None) \<and>
   (\<not> has_config_hz pre \<and> ds \<noteq> [] \<and> list_all is_digit ds \<longrightarrow>
      read_kernel_config_gz (pre @ (''CONFIG_HZ='' @ ds @ [newline]) # post) =
        Inr (Some (dec_val ds)))"
proof (intro conjI impI)
  assume "\<not> has_config_hz f"
  then show "read_kernel_config_gz f = Inr None"
    by (induction f) (simp_all add: has_config_hz_def)
next
  assume a: "\<not> has_config_hz pre \<and> ds \<noteq> [] \<and> list_all is_digit ds"
  have "startswith (''CONFIG_HZ='' @ ds @ [newline]) ''CONFIG_HZ=''"
    by (simp add: startswith_def)
  then have "read_kernel_config_gz ((''CONFIG_HZ='' @ ds @ [newline]) # post) =
      Inr (Some (dec_val ds))"
    using a config_line_field [of ds] py_int_digits [of ds]
    by (simp del: append.simps)
  with a show "read_kernel_config_gz (pre @ (''CONFIG_HZ='' @ ds @ [newline]) # post) =
      Inr (Some (dec_val ds))"
    by (simp add: read_kernel_config_gz_skip)
qed

theorem read_kernel_config_gz_result_witness:
  "read_kernel_config_gz [] = Inr None \<and>
   read_kernel_config_gz ex_config_gz = Inr (Some 250)"
proof -
  have a: "\<not> has_config_hz []"
    by (simp add: has_config_hz_def)
  have b: "\<not> has_config_hz [''CONFIG_HZ_250=y'' @ [newline]] \<and> ''250'' \<noteq> [] \<and>
           list_all is_digit ''250''"
    by (simp add: has_config_hz_def startswith_def is_digit_def)
  have c: "dec_val ''250'' = 250"
    by (simp add: dec_val_def digit_val_def)
  show ?thesis
    using read_kernel_config_gz_result [of "[]" "[''CONFIG_HZ_250=y'' @ [newline]]" "''250''" "[]"]
      a b c
    by (simp add: ex_config_gz_def)
qed

subsection \<open>The derived rate\<close>

lemma ex_jiffies_half: "scan_jiffies (out_lines ex_snap_half) = Inr (Some 4295141796)"
  by (simp add: ex_snap_half_def text_defs)

lemma ex_step_half: "gv ex_s0 ex_snap_half = Inr ex_s_half"
proof -
  have "uptime ex_snap_half = Some 1000" "timer_list ex_snap_half = ex_timer_list"
    by (simp_all add: ex_snap_half_def)
  then show ?thesis
    by (simp add: ex_s0_def ex_s_half_def step_defs ex_cpu0_offset ex_jiffies_half
        cong: ebind_weak_cong)
qed

text \<open>
  Claim C2 fails on the code. \<^verbatim>\<open>user_hz\<close> evaluates \<^verbatim>\<open>int(self.HZ + ((2 // 50) * 50))\<close>,
  which is the estimate truncated to an integer: after a call that estimates 249.5 it
  is 249, where the claimed \<open>\<lfloor>(249.5 + 2) / 50\<rfloor> * 50\<close> is 250, and 249 is no multiple
  of 50.
\<close>

theorem user_hz_truncates:
  "gv ex_s0 ex_snap_half = Inr ex_s_half \<and> HZ ex_s_half = Some (499 / 2) \<and>
   user_hz ex_s_half = Inr 249 \<and>
   \<lfloor>((499 / 2  + 2) / 50 :: real)\<rfloor> * 50 = 250 \<and> \<not> (50 :: int) dvd 249"
  by (simp add: ex_step_half user_hz_def py_trunc_def ex_s_half_def)

subsection \<open>The rolling window\<close>

lemma fold_min_eq: "fold min xs x = Min (set (x # xs))"
  by (simp only: Min.set_eq_fold)

lemma fold_max_eq: "fold max xs x = Max (set (x # xs))"
  by (simp only: Max.set_eq_fold)

lemma py_min_eq: "py_min xs = Inr m \<longleftrightarrow> xs \<noteq> [] \<and> m = Min (set xs)"
  by (cases xs) (auto simp: fold_min_eq simp del: list.set)

lemma py_max_eq: "py_max xs = Inr m \<longleftrightarrow> xs \<noteq> [] \<and> m = Max (set xs)"
  by (cases xs) (auto simp: fold_max_eq simp del: list.set)

lemma py_mean_eq: "py_mean xs = Inr a \<longleftrightarrow> xs \<noteq> [] \<and> a = sum_list xs / real (length xs)"
  by (auto simp: py_mean_def)

lemma length_py_slice_from: "0 < c \<Longrightarrow> length (py_slice_from (- 1 * c) xs) \<le> nat c"
  by (auto simp: py_slice_from_def Let_def)

lemma length_avg_window: "0 < u_count s \<Longrightarrow> length (avg_window s h) \<le> nat (u_count s)"
  unfolding avg_window_def by (rule length_py_slice_from)

lemma minmax_window_eq:
  "minmax_window s w = Inr w2 \<longleftrightarrow>
     (u_min s = None \<and> w2 = w) \<or>
     (\<exists>m M. u_min s = Some m \<and> u_max s = Some M \<and> w2 = w @ [m, M])"
  by (auto simp: minmax_window_def ebind_eq_Inr split: option.splits)

lemma length_minmax_window: "minmax_window s w = Inr w2 \<Longrightarrow> length w2 \<le> length w + 2"
  by (auto simp: minmax_window_eq)

lemma avg_window_cong:
  "u_hz s2 = u_hz s \<Longrightarrow> u_count s2 = u_count s \<Longrightarrow> avg_window s2 h = avg_window s h"
  by (simp add: avg_window_def)

text \<open>What a call that returns has stored, in terms of the object before the call.\<close>

lemma gv_window:
  assumes "gv s inp = Inr s'"
  obtains h w2 where
    "HZ s' = Some h"
    "avg_window s h \<noteq> []"
    "u_avg s' = Some (round8 (sum_list (avg_window s h) / real (length (avg_window s h))))"
    "minmax_window s (avg_window s h) = Inr w2"
    "u_hz s' = w2" "w2 \<noteq> []"
    "u_min s' = Some (round8 (Min (set w2)))"
    "u_max s' = Some (round8 (Max (set w2)))"
    "u_delta s' = Some (round8 (Max (set w2)) - round8 (Min (set w2)))"
    "u_count s' = u_count s"
proof -
  from assms obtain r s1 s2 h where
    u: "update_since_boot s r (timer_list inp) = Inr s1"
    and j: "read_jiffies s1 (out_lines inp) = Inr s2"
    and r: "roll s2 h = Inr s'"
    by (rule gv_InrD)
  from update_since_boot_frame [OF u] read_jiffies_frame [OF j]
  have fr: "u_hz s2 = u_hz s" "u_count s2 = u_count s" "u_min s2 = u_min s" "u_max s2 = u_max s"
    by simp_all
  then have w: "avg_window s2 h = avg_window s h"
    by (simp add: avg_window_def)
  have mw: "minmax_window s2 = minmax_window s"
    using fr by (intro ext) (simp add: minmax_window_def split: option.splits)
  from r obtain a w2 mn mx where
    "py_mean (avg_window s2 h) = Inr a"
    "minmax_window s2 (avg_window s2 h) = Inr w2"
    "py_min w2 = Inr mn" "py_max w2 = Inr mx"
    "s' = s2\<lparr>HZ := Some h, u_hz := w2, u_avg := Some (round8 a),
             u_min := Some (round8 mn), u_max := Some (round8 mx),
             u_delta := Some (round8 mx - round8 mn)\<rparr>"
    by (rule roll_InrD)
  with fr w mw show ?thesis
    by (intro that [of h w2]) (simp_all add: py_mean_eq py_min_eq py_max_eq)
qed

lemma gv_count: "gv s inp = Inr s' \<Longrightarrow> u_count s' = u_count s"
  by (erule gv_window)

lemma run_count: "run s inps = Inr s' \<Longrightarrow> u_count s' = u_count s"
  by (induction inps arbitrary: s) (auto simp: ebind_eq_Inr gv_count)

lemma init_count: "init config_gz tlines = Inr s \<Longrightarrow> u_count s = 100"
  by (auto simp: init_def ebind_eq_Inr)

text \<open>
  Claim C9. From an object with a positive capacity \<open>N\<close> (\<^verbatim>\<open>__init__\<close> sets 100), after
  any sequence of calls, the list the next call averages has at most \<open>N\<close> entries, and the
  list it takes the minimum and maximum of, which is the list it stores, has at most
  \<open>N + 2\<close>.
\<close>

theorem window_lengths:
  assumes "0 < u_count s0" and "run s0 inps = Inr s" and "gv s inp = Inr s'"
  shows "\<exists>h. HZ s' = Some h \<and>
           u_avg s' = Some (round8 (sum_list (avg_window s h) / real (length (avg_window s h)))) \<and>
           length (avg_window s h) \<le> nat (u_count s0) \<and>
           u_min s' = Some (round8 (Min (set (u_hz s')))) \<and>
           u_max s' = Some (round8 (Max (set (u_hz s')))) \<and>
           length (u_hz s') \<le> nat (u_count s0) + 2"
proof -
  from assms(2) have c: "u_count s = u_count s0"
    by (rule run_count)
  from assms(3) obtain h w2 where g:
    "HZ s' = Some h"
    "u_avg s' = Some (round8 (sum_list (avg_window s h) / real (length (avg_window s h))))"
    "minmax_window s (avg_window s h) = Inr w2"
    "u_hz s' = w2"
    "u_min s' = Some (round8 (Min (set w2)))"
    "u_max s' = Some (round8 (Max (set w2)))"
    by (rule gv_window)
  have l: "length (avg_window s h) \<le> nat (u_count s0)"
    using assms(1) c length_avg_window [of s h] by simp
  moreover have "length w2 \<le> length (avg_window s h) + 2"
    using g(3) by (rule length_minmax_window)
  ultimately have "length (u_hz s') \<le> nat (u_count s0) + 2"
    using g(4) by simp
  with g l show ?thesis
    by auto
qed

theorem window_lengths_witness:
  "length (avg_window ex_s2 260) = 5 \<and> length (u_hz ex_s3) = 7 \<and> u_avg ex_s3 = Some 246 \<and>
   u_min ex_s3 = Some 240 \<and> u_max ex_s3 = Some 260"
proof -
  have c: "0 < u_count ex_s0"
    by (simp add: ex_s0_def)
  have r: "run ex_s0 [ex_snap1, ex_snap2] = Inr ex_s2"
    by (simp add: ex_step1 ex_step2)
  have "length (avg_window ex_s2 260) = 5"
    by (simp add: avg_window_def py_slice_from_def ex_s2_def)
  then show ?thesis
    using window_lengths [OF c r ex_step3]
    by (simp add: ex_s3_def)
qed

subsection \<open>What the average is taken of\<close>

lemma drop_append_suffix:
  "k \<le> length xs \<Longrightarrow> \<exists>pre. drop k (xs @ ys) = pre @ ys"
  by simp

lemma py_slice_from_keeps_suffix:
  assumes "int (length ys) \<le> c"
  shows "\<exists>pre. py_slice_from (- 1 * c) (xs @ ys) = pre @ ys"
proof -
  have "nat (max (int (length (xs @ ys)) + - 1 * c) 0) \<le> length xs"
    using assms by auto
  then have "\<exists>pre. drop (nat (max (int (length (xs @ ys)) + - 1 * c) 0)) (xs @ ys) = pre @ ys"
    by (rule drop_append_suffix)
  moreover have "\<exists>pre. drop (nat (min (- 1 * c) (int (length (xs @ ys))))) (xs @ ys) = pre @ ys"
    if "\<not> - 1 * c < 0"
  proof -
    from that assms have "nat (min (- 1 * c) (int (length (xs @ ys)))) \<le> length xs"
      by auto
    then show ?thesis
      by (rule drop_append_suffix)
  qed
  ultimately show ?thesis
    unfolding py_slice_from_def Let_def by (cases "- 1 * c < 0") simp_all
qed

lemma ex_hz_trace: "hz_trace ex_s0 [ex_snap1, ex_snap2, ex_snap3] = [240, 250, 260]"
proof -
  have "HZ ex_s1 = Some 240" "HZ ex_s2 = Some 250" "HZ ex_s3 = Some 260"
    by (simp_all add: ex_s1_def ex_s2_def ex_s3_def)
  then show ?thesis
    by (simp add: ex_step1 ex_step2 ex_step3)
qed

text \<open>
  Claim C3 as stated fails: in the worked example the estimates are 240, 250 and 260,
  whose mean is 250, but the third call averages the list \<open>[240, 250, 240, 240, 260]\<close>,
  which holds the minimum and maximum the second call re-inserted, and reports 246.
\<close>

theorem average_of_instant_values_counterexample:
  "run ex_s0 [ex_snap1, ex_snap2, ex_snap3] = Inr ex_s3 \<and>
   hz_trace ex_s0 [ex_snap1, ex_snap2, ex_snap3] = [240, 250, 260] \<and>
   spec_average 100 [240, 250, 260] = 250 \<and>
   u_avg ex_s3 = Some 246 \<and>
   u_hz ex_s2 = [240, 250, 240, 240] \<and>
   avg_window ex_s2 260 = [240, 250, 240, 240, 260]"
proof -
  have "spec_average 100 [240, 250, 260] = 250"
    by (simp add: spec_average_def round8_def round_half_even_def)
  moreover have "avg_window ex_s2 260 = [240, 250, 240, 240, 260]"
    by (simp add: avg_window_def py_slice_from_def ex_s2_def)
  moreover have "u_avg ex_s3 = Some 246" "u_hz ex_s2 = [240, 250, 240, 240]"
    by (simp_all add: ex_s3_def ex_s2_def)
  ultimately show ?thesis
    using ex_run3 ex_hz_trace by simp
qed

text \<open>
  Claim C3, amended. There is one list. A call that returns has averaged the list
  \<open>avg_window\<close>: the stored list with the new estimate appended, cut to its last \<open>N\<close>
  entries. It then stores that list with the previous minimum and maximum appended, if
  there were any. So the extremes a call re-inserts are not in that call's average, but
  they stay in the list: for a capacity of at least 3 they are among the entries the
  next call averages.
\<close>

theorem average_window_contents:
  assumes "gv s inp = Inr s'"
  shows "\<exists>h. HZ s' = Some h \<and>
           u_avg s' = Some (round8 (sum_list (avg_window s h) / real (length (avg_window s h)))) \<and>
           avg_window s h = py_slice_from (- 1 * u_count s) (u_hz s @ [h]) \<and>
           (u_min s = None \<longrightarrow> u_hz s' = avg_window s h) \<and>
           (\<forall>m M. u_min s = Some m \<and> u_max s = Some M \<longrightarrow>
              u_hz s' = avg_window s h @ [m, M] \<and>
              (3 \<le> u_count s \<longrightarrow> (\<forall>h'. \<exists>pre. avg_window s' h' = pre @ [m, M, h'])))"
proof -
  from assms obtain h w2 where g:
    "HZ s' = Some h"
    "u_avg s' = Some (round8 (sum_list (avg_window s h) / real (length (avg_window s h))))"
    "minmax_window s (avg_window s h) = Inr w2"
    "u_hz s' = w2" "u_count s' = u_count s"
    by (rule gv_window)
  have next_window: "\<exists>pre. avg_window s' h' = pre @ [m, M, h']"
    if "u_hz s' = avg_window s h @ [m, M]" and "3 \<le> u_count s" for m M h'
  proof -
    have "int (length [m, M, h']) \<le> u_count s"
      using that(2) by simp
    then have "\<exists>pre. py_slice_from (- 1 * u_count s) (avg_window s h @ [m, M, h']) = pre @ [m, M, h']"
      by (rule py_slice_from_keeps_suffix)
    then show ?thesis
      using that(1) g(5) by (simp add: avg_window_def)
  qed
  from g(3,4) have "u_min s = None \<longrightarrow> u_hz s' = avg_window s h"
    and "\<forall>m M. u_min s = Some m \<and> u_max s = Some M \<longrightarrow> u_hz s' = avg_window s h @ [m, M]"
    by (auto simp: minmax_window_eq)
  with g(1,2) next_window show ?thesis
    by (intro exI [of _ h]) (auto simp: avg_window_def)
qed

theorem average_window_contents_witness:
  "HZ ex_s3 = Some 260 \<and> u_avg ex_s3 = Some 246 \<and>
   avg_window ex_s2 260 = [240, 250, 240, 240, 260] \<and>
   u_hz ex_s3 = [240, 250, 240, 240, 260] @ [240, 250] \<and>
   (\<exists>pre. avg_window ex_s3 270 = pre @ [240, 250, 270])"
proof -
  have w: "avg_window ex_s2 260 = [240, 250, 240, 240, 260]"
    by (simp add: avg_window_def py_slice_from_def ex_s2_def)
  have m: "u_min ex_s2 = Some 240" "u_max ex_s2 = Some 250" "3 \<le> u_count ex_s2"
    by (simp_all add: ex_s2_def)
  have h: "HZ ex_s3 = Some 260"
    by (simp add: ex_s3_def)
  have r: "round8 246 = 246"
    by (simp add: round8_def round_half_even_def)
  show ?thesis
    using average_window_contents [OF ex_step3] w m h r
    by auto
qed

subsection \<open>The extremes over a run\<close>

lemma init_extremes: "init config_gz tlines = Inr s \<Longrightarrow> u_min s = None \<and> u_max s = None"
  by (auto simp: init_def ebind_eq_Inr)

lemma Min_le_Max_list: "xs \<noteq> [] \<Longrightarrow> Min (set xs) \<le> Max (set (xs :: real list))"
  by (simp add: Min_le_iff)

lemma gv_extremes_ok:
  assumes "gv s inp = Inr s'"
  shows "extremes_ok s'"
proof -
  from assms obtain w2 where
    "w2 \<noteq> []"
    "u_min s' = Some (round8 (Min (set w2)))"
    "u_max s' = Some (round8 (Max (set w2)))"
    "u_delta s' = Some (round8 (Max (set w2)) - round8 (Min (set w2)))"
    by (rule gv_window)
  then show ?thesis
    by (simp add: extremes_ok_def round8_mono Min_le_Max_list)
qed

lemma run_extremes_ok:
  "extremes_ok s \<Longrightarrow> run s inps = Inr s' \<Longrightarrow> extremes_ok s'"
proof (induction inps arbitrary: s)
  case Nil
  then show ?case by simp
next
  case (Cons inp inps)
  from Cons.prems(2) obtain s1 where "gv s inp = Inr s1" "run s1 inps = Inr s'"
    by (auto simp: ebind_eq_Inr)
  then show ?case
    using Cons.IH [of s1] gv_extremes_ok by blast
qed

lemma run_extremes_set:
  "inps \<noteq> [] \<Longrightarrow> run s inps = Inr s' \<Longrightarrow> u_min s' \<noteq> None \<and> u_max s' \<noteq> None"
proof (induction inps arbitrary: s)
  case Nil
  then show ?case by simp
next
  case (Cons inp inps)
  from Cons.prems(2) obtain s1 where s1: "gv s inp = Inr s1" "run s1 inps = Inr s'"
    by (auto simp: ebind_eq_Inr)
  show ?case
  proof (cases "inps = []")
    case True
    with s1 have "s' = s1"
      by simp
    with s1(1) show ?thesis
      by (auto elim: gv_window)
  next
    case False
    then show ?thesis
      using Cons.IH [OF _ s1(2)] by simp
  qed
qed

lemma gv_extremes_widen:
  assumes "gv s inp = Inr s'" and "extremes_ok s"
    and "u_min s = Some m" and "u_max s = Some M"
  shows "\<exists>m' M'. u_min s' = Some m' \<and> u_max s' = Some M' \<and> m' \<le> m \<and> M \<le> M'"
proof -
  from assms(1) obtain h w2 where g:
    "minmax_window s (avg_window s h) = Inr w2"
    "u_min s' = Some (round8 (Min (set w2)))"
    "u_max s' = Some (round8 (Max (set w2)))"
    by (rule gv_window)
  from g(1) assms(3,4) have w2: "w2 = avg_window s h @ [m, M]"
    by (simp add: minmax_window_eq)
  from assms(2-4) have rd: "round8 m = m" "round8 M = M"
    by (simp_all add: extremes_ok_def)
  have "m \<in> set w2" "M \<in> set w2"
    by (simp_all add: w2)
  then have "Min (set w2) \<le> m" "M \<le> Max (set w2)"
    by (simp_all del: set_append)
  then have "round8 (Min (set w2)) \<le> round8 m" "round8 M \<le> round8 (Max (set w2))"
    by (simp_all add: round8_mono)
  with rd g(2,3) show ?thesis
    by simp
qed

text \<open>
  Claim C10. Take an object made by \<^verbatim>\<open>__init__\<close> and any sequence of calls of \<^verbatim>\<open>_gv\<close> that
  return. After the first call a minimum and a maximum are reported. Every further call
  reports a minimum that is not larger and a maximum that is not smaller than the ones
  before it, and the reported variance, maximum minus minimum, is never negative and
  never decreases.
\<close>

theorem extremes_monotone:
  assumes "init config_gz tlines = Inr s0"
    and "run s0 inps = Inr s" and "gv s inp = Inr s'"
  shows "(inps \<noteq> [] \<longrightarrow> u_min s \<noteq> None \<and> u_max s \<noteq> None) \<and>
         (\<exists>m' M'. u_min s' = Some m' \<and> u_max s' = Some M' \<and>
            u_delta s' = Some (M' - m') \<and> 0 \<le> M' - m' \<and>
            (\<forall>m M. u_min s = Some m \<and> u_max s = Some M \<longrightarrow>
               m' \<le> m \<and> M \<le> M' \<and> u_delta s = Some (M - m) \<and> M - m \<le> M' - m'))"
proof -
  from assms(1) have "extremes_ok s0"
    by (auto simp: extremes_ok_def dest: init_extremes)
  with assms(2) have ok: "extremes_ok s"
    by (rule run_extremes_ok [rotated])
  from assms(3) have ok': "extremes_ok s'"
    by (rule gv_extremes_ok)
  from assms(3) obtain m' M' where e': "u_min s' = Some m'" "u_max s' = Some M'"
    by (auto elim: gv_window)
  with ok' have d': "u_delta s' = Some (M' - m')" "m' \<le> M'"
    by (simp_all add: extremes_ok_def)
  have "m' \<le> m \<and> M \<le> M' \<and> u_delta s = Some (M - m) \<and> M - m \<le> M' - m'"
    if "u_min s = Some m" "u_max s = Some M" for m M
  proof -
    from gv_extremes_widen [OF assms(3) ok that] e'
    have "m' \<le> m" "M \<le> M'"
      by simp_all
    moreover from ok that have "u_delta s = Some (M - m)"
      by (simp add: extremes_ok_def)
    ultimately show ?thesis
      by simp
  qed
  with e' d' assms(2) show ?thesis
    by (auto dest: run_extremes_set)
qed

theorem extremes_monotone_witness:
  "u_min ex_s2 = Some 240 \<and> u_max ex_s2 = Some 250 \<and> u_delta ex_s2 = Some 10 \<and>
   u_min ex_s3 = Some 240 \<and> u_max ex_s3 = Some 260 \<and> u_delta ex_s3 = Some 20"
proof -
  have r: "run ex_s0 [ex_snap1, ex_snap2] = Inr ex_s2"
    by (simp add: ex_step1 ex_step2)
  show ?thesis
    using extremes_monotone [OF ex_init r ex_step3]
    by (simp add: ex_s2_def ex_s3_def)
qed

end
